theory Spec2Isabelle
  imports Main
begin

section \<open>The auditor script and its environment\<close>

text \<open>
  The program is \<^verbatim>\<open>Global_Scripts/audit_python_project.py\<close>: it checks that its
  argument is a directory, then runs a dependency audit and a code-quality audit, each
  of which shells out to \<^verbatim>\<open>pip\<close> and to one external tool, and prints what they
  return.

  Everything the script observes comes from the operating system, so the model takes the
  operating system as a parameter \<open>W\<close> and records what the script does to it as a list
  of events, in order: the texts given to \<^verbatim>\<open>print\<close> and the command lines given to
  \<^verbatim>\<open>subprocess.run\<close>.

  Strings are lists of 8-bit characters. Paths are joined as \<^verbatim>\<open>posixpath.join\<close> does.
\<close>

subsection \<open>Environment\<close>

text \<open>What \<^verbatim>\<open>stat\<close> finds at a path: a directory, or anything else that exists.\<close>

datatype node = RegularFile | Directory

text \<open>
  The \<^verbatim>\<open>CompletedProcess\<close> of \<^verbatim>\<open>subprocess.run(..., capture_output=True, text=True)\<close>:
  exit status and the two captured streams.
\<close>

record completed_process =
  returncode :: int
  stdout :: string
  stderr :: string

text \<open>
  \<^verbatim>\<open>subprocess.CalledProcessError(returncode, cmd, output, stderr)\<close>, the exception of
  \<^verbatim>\<open>check=True\<close>.
\<close>

datatype called_process_error = CalledProcessError int string string string

text \<open>
  The operating system. External commands may change it, so what a probe or a command
  answers may depend on how many commands the script has run before: \<open>fs W n path\<close> is
  what is at \<open>path\<close> after \<open>n\<close> commands, and \<open>shell W n command\<close> is the exit status
  and the decoded output with which \<open>command\<close> ends when it is run after \<open>n\<close> earlier
  commands; \<open>executable\<close> is \<^verbatim>\<open>sys.executable\<close>.

  A \<open>world\<close> describes the runs in which every command is started and its output decoded.
  The commands for which \<^verbatim>\<open>subprocess.run\<close> raises before there is a
  \<^verbatim>\<open>CompletedProcess\<close> are added by \<open>raising_world\<close> below.
\<close>

record world =
  executable :: string
  fs :: "nat \<Rightarrow> string \<Rightarrow> node option"
  shell :: "nat \<Rightarrow> string \<Rightarrow> completed_process"

datatype event = is_Print: Print string | is_Exec: Exec string

definition cmds_run :: "event list \<Rightarrow> nat" where
  "cmds_run t = length (filter is_Exec t)"

definition commands :: "event list \<Rightarrow> string list" where
  "commands t = concat (map (\<lambda>e. case e of Exec c \<Rightarrow> [c] | Print _ \<Rightarrow> []) t)"

definition printed :: "event list \<Rightarrow> string list" where
  "printed t = concat (map (\<lambda>e. case e of Print s \<Rightarrow> [s] | Exec _ \<Rightarrow> []) t)"

definition os_path_exists :: "world \<Rightarrow> event list \<Rightarrow> string \<Rightarrow> bool" where
  "os_path_exists W t path = (fs W (cmds_run t) path \<noteq> None)"

definition os_path_isdir :: "world \<Rightarrow> event list \<Rightarrow> string \<Rightarrow> bool" where
  "os_path_isdir W t path = (fs W (cmds_run t) path = Some Directory)"

definition os_path_join :: "string \<Rightarrow> string \<Rightarrow> string" where
  "os_path_join a b =
     (if b \<noteq> [] \<and> hd b = CHR ''/'' then b
      else if a = [] \<or> last a = CHR ''/'' then a @ b
      else a @ ''/'' @ b)"

definition print :: "string \<Rightarrow> event list \<Rightarrow> event list" where
  "print s t = t @ [Print s]"

subsection \<open>String helpers of Python\<close>

text \<open>\<^verbatim>\<open>sep.join(parts)\<close>.\<close>

fun str_join :: "string \<Rightarrow> string list \<Rightarrow> string" where
  "str_join sep [] = []"
| "str_join sep [x] = x"
| "str_join sep (x # y # ys) = x @ sep @ str_join sep (y # ys)"

text \<open>Iterating over a \<^verbatim>\<open>str\<close> yields its characters as one-character strings.\<close>

definition chars :: "string \<Rightarrow> string list" where
  "chars s = map (\<lambda>c. [c]) s"

text \<open>\<^verbatim>\<open>str.isspace\<close> on the code points below 256.\<close>

definition isspace :: "char \<Rightarrow> bool" where
  "isspace c = ((of_char c :: nat) \<in> {9, 10, 11, 12, 13, 28, 29, 30, 31, 32, 133, 160})"

text \<open>\<^verbatim>\<open>str.strip()\<close>; a string is truthy when it is not empty.\<close>

definition strip :: "string \<Rightarrow> string" where
  "strip s = rev (dropWhile isspace (rev (dropWhile isspace s)))"

subsection \<open>The script\<close>

text \<open>
  \<^verbatim>\<open>subprocess.run(command, capture_output=True, text=True, check=True, shell=True)\<close>:
  the command runs; with \<^verbatim>\<open>check=True\<close> a non-zero exit status raises.
\<close>

definition subprocess_run ::
  "world \<Rightarrow> string \<Rightarrow> event list \<Rightarrow> (called_process_error + completed_process) \<times> event list" where
  "subprocess_run W command t =
     (let r = shell W (cmds_run t) command;
          t' = t @ [Exec command]
      in (if returncode r \<noteq> 0
          then Inl (CalledProcessError (returncode r) command (stdout r) (stderr r))
          else Inr r, t'))"

definition run_command :: "world \<Rightarrow> string \<Rightarrow> event list \<Rightarrow> string \<times> event list" where
  "run_command W command t =
     (case subprocess_run W command t of
        (Inr result, t') \<Rightarrow> (stdout result, t')
      | (Inl (CalledProcessError rc c out err), t') \<Rightarrow>
          (''Error running command '' @ [CHR 0x27] @ str_join '' '' (chars command)
             @ [CHR 0x27] @ '': '' @ err, t'))"

definition check_dependencies :: "world \<Rightarrow> string \<Rightarrow> event list \<Rightarrow> event list" where
  "check_dependencies W project_path t0 =
     (let t1 = print ''\<newline>--- Checking for vulnerable dependencies ---'' t0;
          t2 = snd (run_command W (executable W @ '' -m pip install pip-audit'') t1);
          pyproject_path = os_path_join project_path ''pyproject.toml'';
          requirements_path = os_path_join project_path ''requirements.txt''
      in if os_path_exists W t2 pyproject_path then
           (let t3 = print (''Auditing dependencies from '' @ pyproject_path @ ''...'') t2;
                (audit_result, t4) =
                   run_command W (''cd '' @ project_path @ '' && '' @ executable W
                                    @ '' -m pip-audit'') t3
            in print audit_result t4)
         else if os_path_exists W t2 requirements_path then
           (let t3 = print (''Auditing '' @ requirements_path @ ''...'') t2;
                (audit_result, t4) =
                   run_command W (executable W @ '' -m pip-audit -r '' @ requirements_path) t3
            in print audit_result t4)
         else print ''No pyproject.toml or requirements.txt found.'' t2)"

definition check_code_quality :: "world \<Rightarrow> string \<Rightarrow> event list \<Rightarrow> event list" where
  "check_code_quality W project_path t0 =
     (let t1 = print ''\<newline>--- Checking code quality with flake8 ---'' t0;
          t2 = snd (run_command W (executable W @ '' -m pip install flake8'') t1);
          src_path = os_path_join project_path ''src''
      in if os_path_exists W t2 src_path then
           (let (quality_result, t3) = run_command W (''flake8 '' @ src_path) t2
            in if strip quality_result \<noteq> [] then print quality_result t3
               else print ''flake8 found no issues.'' t3)
         else print ''No src/ directory found to analyze.'' t2)"

text \<open>
  How \<^verbatim>\<open>main\<close> ends from the directory check on: it returns, or \<^verbatim>\<open>sys.exit\<close> raises
  \<^verbatim>\<open>SystemExit\<close>. The argument is \<^verbatim>\<open>args.project_path\<close>, as \<^verbatim>\<open>parse_args\<close> delivers it;
  the endings of \<^verbatim>\<open>parse_args\<close> itself are part of \<open>main_raising\<close> below.
\<close>

datatype completion = Returned | SystemExit int

fun exit_status :: "completion \<Rightarrow> int" where
  "exit_status Returned = 0"
| "exit_status (SystemExit n) = n"

definition main :: "world \<Rightarrow> string \<Rightarrow> completion \<times> event list" where
  "main W project_path =
     (let t0 = [] in
      if \<not> os_path_isdir W t0 project_path then
        (SystemExit 1,
         print (''Error: Project path '' @ [CHR 0x27] @ project_path @ [CHR 0x27]
                  @ '' not found.'') t0)
      else
        (let t1 = print (''--- Starting Audit for: '' @ project_path @ '' ---'') t0;
             t2 = check_dependencies W project_path t1;
             t3 = check_code_quality W project_path t2;
             t4 = print ''\<newline>--- Audit Complete ---'' t3
         in (Returned, t4)))"

subsection \<open>The script when a command does not end with an exit status\<close>

text \<open>
  \<^verbatim>\<open>subprocess.run\<close> can raise before a \<^verbatim>\<open>CompletedProcess\<close> exists: \<^verbatim>\<open>OSError\<close> when
  the shell cannot be started, \<^verbatim>\<open>UnicodeDecodeError\<close> when \<^verbatim>\<open>text=True\<close> cannot decode the
  captured bytes. A \<open>raising_world\<close> says for which commands that happens:
  \<open>raised W n command = Some e\<close> when \<^verbatim>\<open>subprocess.run\<close> raises \<open>e\<close> for \<open>command\<close> run
  after \<open>n\<close> earlier commands; otherwise the command ends as \<open>shell W n command\<close> says.
\<close>

datatype subprocess_exception = OSError | UnicodeDecodeError

datatype python_exception = CalledProcess called_process_error | Subprocess subprocess_exception

record raising_world = world +
  raised :: "nat \<Rightarrow> string \<Rightarrow> subprocess_exception option"

text \<open>
  The script once more, with these exceptions. The \<^verbatim>\<open>except\<close> clause of
  \<^verbatim>\<open>run_command\<close> names \<^verbatim>\<open>subprocess.CalledProcessError\<close> only, so any other exception
  leaves \<^verbatim>\<open>run_command\<close>, the audit that called it and \<^verbatim>\<open>main\<close>, none of which has a
  handler. An audit returns \<open>None\<close> when it returns and \<open>Some e\<close> when \<open>e\<close> leaves it.
\<close>

definition subprocess_run_raising ::
  "raising_world \<Rightarrow> string \<Rightarrow> event list \<Rightarrow> (python_exception + completed_process) \<times> event list" where
  "subprocess_run_raising W command t =
     (let r = shell W (cmds_run t) command;
          t' = t @ [Exec command]
      in (case raised W (cmds_run t) command of
            Some e \<Rightarrow> Inl (Subprocess e)
          | None \<Rightarrow>
              if returncode r \<noteq> 0
              then Inl (CalledProcess (CalledProcessError (returncode r) command (stdout r) (stderr r)))
              else Inr r, t'))"

definition run_command_raising ::
  "raising_world \<Rightarrow> string \<Rightarrow> event list \<Rightarrow> (subprocess_exception + string) \<times> event list" where
  "run_command_raising W command t =
     (case subprocess_run_raising W command t of
        (Inr result, t') \<Rightarrow> (Inr (stdout result), t')
      | (Inl (CalledProcess (CalledProcessError rc c out err)), t') \<Rightarrow>
          (Inr (''Error running command '' @ [CHR 0x27] @ str_join '' '' (chars command)
                  @ [CHR 0x27] @ '': '' @ err), t')
      | (Inl (Subprocess e), t') \<Rightarrow> (Inl e, t'))"

definition check_dependencies_raising ::
  "raising_world \<Rightarrow> string \<Rightarrow> event list \<Rightarrow> subprocess_exception option \<times> event list" where
  "check_dependencies_raising W project_path t0 =
     (let t1 = print ''\<newline>--- Checking for vulnerable dependencies ---'' t0
      in case run_command_raising W (executable W @ '' -m pip install pip-audit'') t1 of
           (Inl e, t2) \<Rightarrow> (Some e, t2)
         | (Inr installed, t2) \<Rightarrow>
             (let pyproject_path = os_path_join project_path ''pyproject.toml'';
                  requirements_path = os_path_join project_path ''requirements.txt''
              in if os_path_exists (world.truncate W) t2 pyproject_path then
                   (let t3 = print (''Auditing dependencies from '' @ pyproject_path @ ''...'') t2
                    in case run_command_raising W (''cd '' @ project_path @ '' && ''
                                 @ executable W @ '' -m pip-audit'') t3 of
                         (Inl e, t4) \<Rightarrow> (Some e, t4)
                       | (Inr audit_result, t4) \<Rightarrow> (None, print audit_result t4))
                 else if os_path_exists (world.truncate W) t2 requirements_path then
                   (let t3 = print (''Auditing '' @ requirements_path @ ''...'') t2
                    in case run_command_raising W (executable W @ '' -m pip-audit -r ''
                                 @ requirements_path) t3 of
                         (Inl e, t4) \<Rightarrow> (Some e, t4)
                       | (Inr audit_result, t4) \<Rightarrow> (None, print audit_result t4))
                 else (None, print ''No pyproject.toml or requirements.txt found.'' t2)))"

definition check_code_quality_raising ::
  "raising_world \<Rightarrow> string \<Rightarrow> event list \<Rightarrow> subprocess_exception option \<times> event list" where
  "check_code_quality_raising W project_path t0 =
     (let t1 = print ''\<newline>--- Checking code quality with flake8 ---'' t0
      in case run_command_raising W (executable W @ '' -m pip install flake8'') t1 of
           (Inl e, t2) \<Rightarrow> (Some e, t2)
         | (Inr installed, t2) \<Rightarrow>
             (let src_path = os_path_join project_path ''src''
              in if os_path_exists (world.truncate W) t2 src_path then
                   (case run_command_raising W (''flake8 '' @ src_path) t2 of
                      (Inl e, t3) \<Rightarrow> (Some e, t3)
                    | (Inr quality_result, t3) \<Rightarrow>
                        if strip quality_result \<noteq> [] then (None, print quality_result t3)
                        else (None, print ''flake8 found no issues.'' t3))
                 else (None, print ''No src/ directory found to analyze.'' t2)))"

text \<open>
  What \<^verbatim>\<open>parser.parse_args()\<close> does with the command line: it delivers a namespace with
  \<^verbatim>\<open>project_path\<close>, or raises \<^verbatim>\<open>SystemExit\<close> (status 0 after printing the help, 2 after a
  usage error). What \<^verbatim>\<open>argparse\<close> itself writes is not among the events.
\<close>

datatype parsed = Namespace string | ParserExit int

text \<open>
  How the process ends: as \<open>main\<close> ends, or with an uncaught exception, for which the
  interpreter prints a traceback and exits with status 1.
\<close>

datatype ending = Ended completion | Uncaught subprocess_exception


definition main_raising :: "raising_world \<Rightarrow> parsed \<Rightarrow> ending \<times> event list" where
  "main_raising W args =
     (case args of
        ParserExit n \<Rightarrow> (Ended (SystemExit n), [])
      | Namespace project_path \<Rightarrow>
          (let t0 = [] in
           if \<not> os_path_isdir (world.truncate W) t0 project_path then
             (Ended (SystemExit 1),
              print (''Error: Project path '' @ [CHR 0x27] @ project_path @ [CHR 0x27]
                       @ '' not found.'') t0)
           else
             (let t1 = print (''--- Starting Audit for: '' @ project_path @ '' ---'') t0
              in case check_dependencies_raising W project_path t1 of
                   (Some e, t2) \<Rightarrow> (Uncaught e, t2)
                 | (None, t2) \<Rightarrow>
                     (case check_code_quality_raising W project_path t2 of
                        (Some e, t3) \<Rightarrow> (Uncaught e, t3)
                      | (None, t3) \<Rightarrow>
                          (Ended Returned, print ''\<newline>--- Audit Complete ---'' t3)))))"


subsection \<open>Derived notions used in the statements\<close>

text \<open>What an audit appends to the events that came before it.\<close>

definition dependency_events :: "world \<Rightarrow> string \<Rightarrow> event list \<Rightarrow> event list" where
  "dependency_events W p t = drop (length t) (check_dependencies W p t)"

definition quality_events :: "world \<Rightarrow> string \<Rightarrow> event list \<Rightarrow> event list" where
  "quality_events W p t = drop (length t) (check_code_quality W p t)"

subsection \<open>Example environments\<close>

definition finished :: "int \<Rightarrow> string \<Rightarrow> string \<Rightarrow> completed_process" where
  "finished rc out err = \<lparr>returncode = rc, stdout = out, stderr = err\<rparr>"

text \<open>A project with both manifests and a source directory; every command succeeds silently.\<close>

definition full_world :: world where
  "full_world =
     \<lparr>executable = ''python3'',
      fs = (\<lambda>n path.
              if path = ''proj'' \<or> path = ''proj/src'' then Some Directory
              else if path = ''proj/pyproject.toml'' \<or> path = ''proj/requirements.txt''
              then Some RegularFile else None),
      shell = (\<lambda>n c. finished 0 [] [])\<rparr>"

text \<open>Only a requirements file; every command fails with output on both streams.\<close>

definition requirements_world :: world where
  "requirements_world =
     \<lparr>executable = ''python3'',
      fs = (\<lambda>n path.
              if path = ''proj'' then Some Directory
              else if path = ''proj/requirements.txt'' then Some RegularFile else None),
      shell = (\<lambda>n c. finished 1 ''found 2 problems'' ''boom'')\<rparr>"

text \<open>An empty project directory; every command fails.\<close>

definition bare_world :: world where
  "bare_world =
     \<lparr>executable = ''python3'',
      fs = (\<lambda>n path. if path = ''proj'' then Some Directory else None),
      shell = (\<lambda>n c. finished 2 [] ''no such tool'')\<rparr>"

text \<open>The three probed names exist with the unexpected kind.\<close>

definition odd_world :: world where
  "odd_world =
     \<lparr>executable = ''python3'',
      fs = (\<lambda>n path.
              if path = ''proj'' \<or> path = ''proj/pyproject.toml'' then Some Directory
              else if path = ''proj/src'' then Some RegularFile else None),
      shell = (\<lambda>n c. finished 0 [] [])\<rparr>"

text \<open>The same names as in \<open>odd_world\<close>, with the expected kinds.\<close>

definition plain_world :: world where
  "plain_world =
     \<lparr>executable = ''python3'',
      fs = (\<lambda>n path.
              if path = ''proj'' \<or> path = ''proj/src'' then Some Directory
              else if path = ''proj/pyproject.toml'' then Some RegularFile else None),
      shell = (\<lambda>n c. finished 0 [] [])\<rparr>"

definition odd_requirements_world :: world where
  "odd_requirements_world =
     \<lparr>executable = ''python3'',
      fs = (\<lambda>n path.
              if path = ''proj'' \<or> path = ''proj/requirements.txt'' then Some Directory
              else None),
      shell = (\<lambda>n c. finished 0 [] [])\<rparr>"

text \<open>A source directory whose checker succeeds and writes a single newline.\<close>

definition newline_world :: world where
  "newline_world =
     \<lparr>executable = ''python3'',
      fs = (\<lambda>n path. if path = ''proj'' \<or> path = ''proj/src'' then Some Directory else None),
      shell = (\<lambda>n c. finished 0 ''\<newline>'' [])\<rparr>"

text \<open>A source directory whose checker reports a finding and succeeds.\<close>

definition finding_world :: world where
  "finding_world =
     \<lparr>executable = ''python3'',
      fs = (\<lambda>n path. if path = ''proj'' \<or> path = ''proj/src'' then Some Directory else None),
      shell = (\<lambda>n c. finished 0 ''E501'' [])\<rparr>"

text \<open>
  A source directory whose checker writes bytes that cannot be decoded; every other command
  succeeds silently.
\<close>

definition garbled_world :: raising_world where
  "garbled_world =
     \<lparr>executable = ''python3'',
      fs = (\<lambda>n path. if path = ''proj'' \<or> path = ''proj/src'' then Some Directory else None),
      shell = (\<lambda>n c. finished 0 [] []),
      raised = (\<lambda>n c. if c = ''flake8 proj/src'' then Some UnicodeDecodeError else None)\<rparr>"

text \<open>
  Only a requirements file; every command fails with an exit status, and the one command
  that would raise is never run.
\<close>

definition calm_world :: raising_world where
  "calm_world =
     \<lparr>executable = ''python3'',
      fs = (\<lambda>n path.
              if path = ''proj'' then Some Directory
              else if path = ''proj/requirements.txt'' then Some RegularFile else None),
      shell = (\<lambda>n c. finished 1 ''found 2 problems'' ''boom''),
      raised = (\<lambda>n c. if c = ''flake8 proj/src'' then Some OSError else None)\<rparr>"

section \<open>Basic facts about the model\<close>

lemma cmds_run_Nil: "cmds_run [] = 0"
  by (simp add: cmds_run_def)

lemma cmds_run_append: "cmds_run (t @ u) = cmds_run t + cmds_run u"
  by (simp add: cmds_run_def)

lemma cmds_run_Cons_Exec: "cmds_run (Exec c # t) = Suc (cmds_run t)"
  by (simp add: cmds_run_def)

lemma cmds_run_Cons_Print: "cmds_run (Print s # t) = cmds_run t"
  by (simp add: cmds_run_def)

lemmas cmds_run_simps = cmds_run_Nil cmds_run_append cmds_run_Cons_Exec cmds_run_Cons_Print

lemma commands_Nil: "commands [] = []"
  by (simp add: commands_def)

lemma commands_append: "commands (t @ u) = commands t @ commands u"
  by (simp add: commands_def)

lemma commands_Cons_Exec: "commands (Exec c # t) = c # commands t"
  by (simp add: commands_def)

lemma commands_Cons_Print: "commands (Print s # t) = commands t"
  by (simp add: commands_def)

lemmas commands_simps = commands_Nil commands_append commands_Cons_Exec commands_Cons_Print

lemma printed_Nil: "printed [] = []"
  by (simp add: printed_def)

lemma printed_append: "printed (t @ u) = printed t @ printed u"
  by (simp add: printed_def)

lemma printed_Cons_Exec: "printed (Exec c # t) = printed t"
  by (simp add: printed_def)

lemma printed_Cons_Print: "printed (Print s # t) = s # printed t"
  by (simp add: printed_def)

lemmas printed_simps = printed_Nil printed_append printed_Cons_Exec printed_Cons_Print

lemma run_command_unfold:
  "run_command W c t =
     (if returncode (shell W (cmds_run t) c) = 0 then stdout (shell W (cmds_run t) c)
      else ''Error running command '' @ [CHR 0x27] @ str_join '' '' (chars c)
             @ [CHR 0x27] @ '': '' @ stderr (shell W (cmds_run t) c),
      t @ [Exec c])"
  by (simp add: run_command_def subprocess_run_def Let_def)

lemma strip_Nil_iff: "strip s = [] \<longleftrightarrow> (\<forall>c\<in>set s. isspace c)"
proof (cases "dropWhile isspace s = []")
  case True
  have "strip s = []"
    unfolding strip_def True by simp
  moreover have "\<forall>c\<in>set s. isspace c"
    using True by simp
  ultimately show ?thesis by simp
next
  case False
  then have "\<not> isspace (hd (dropWhile isspace s))"
    by (rule hd_dropWhile)
  moreover from False have "hd (dropWhile isspace s) \<in> set (dropWhile isspace s)"
    by simp
  ultimately have "strip s \<noteq> []"
    by (auto simp: strip_def)
  with False show ?thesis by simp
qed

lemma check_dependencies_unfold:
  "check_dependencies W p t =
    (let install = executable W @ '' -m pip install pip-audit'';
         pp = os_path_join p ''pyproject.toml'';
         rp = os_path_join p ''requirements.txt'';
         scan_project = ''cd '' @ p @ '' && '' @ executable W @ '' -m pip-audit'';
         scan_file = executable W @ '' -m pip-audit -r '' @ rp;
         t2 = t @ [Print ''\<newline>--- Checking for vulnerable dependencies ---'', Exec install]
     in if fs W (Suc (cmds_run t)) pp \<noteq> None then
          t2 @ [Print (''Auditing dependencies from '' @ pp @ ''...''), Exec scan_project,
                Print (fst (run_command W scan_project t2))]
        else if fs W (Suc (cmds_run t)) rp \<noteq> None then
          t2 @ [Print (''Auditing '' @ rp @ ''...''), Exec scan_file,
                Print (fst (run_command W scan_file t2))]
        else t2 @ [Print ''No pyproject.toml or requirements.txt found.''])"
  by (simp add: check_dependencies_def Let_def run_command_unfold print_def os_path_exists_def
      cmds_run_simps)

lemma check_code_quality_unfold:
  "check_code_quality W p t =
    (let install = executable W @ '' -m pip install flake8'';
         src = os_path_join p ''src'';
         t2 = t @ [Print ''\<newline>--- Checking code quality with flake8 ---'', Exec install];
         q = fst (run_command W (''flake8 '' @ src) t2)
     in if fs W (Suc (cmds_run t)) src \<noteq> None then
          t2 @ [Exec (''flake8 '' @ src),
                Print (if \<exists>c\<in>set q. \<not> isspace c then q else ''flake8 found no issues.'')]
        else t2 @ [Print ''No src/ directory found to analyze.''])"
  by (simp add: check_code_quality_def Let_def run_command_unfold print_def os_path_exists_def
      cmds_run_simps strip_Nil_iff)

text \<open>\<^verbatim>\<open>' '.join(command)\<close> on a string: the characters with a space between neighbours.\<close>

lemma spaced_Nil: "str_join '' '' (chars []) = []"
  by (simp add: chars_def)

lemma spaced_single: "str_join '' '' (chars [x]) = [x]"
  by (simp add: chars_def)

lemma spaced_Cons2:
  "str_join '' '' (chars (x # y # ys)) = x # CHR '' '' # str_join '' '' (chars (y # ys))"
  by (simp add: chars_def)

lemma spaced_length: "length (str_join '' '' (chars c)) = 2 * length c - 1"
  by (induction c rule: induct_list012) (simp_all add: spaced_Nil spaced_single spaced_Cons2)

lemma spaced_even: "i < length c \<Longrightarrow> str_join '' '' (chars c) ! (2 * i) = c ! i"
proof (induction c arbitrary: i rule: induct_list012)
  case 1
  then show ?case by simp
next
  case (2 x)
  then show ?case by (simp add: spaced_single)
next
  case (3 x y ys)
  show ?case
  proof (cases i)
    case 0
    then show ?thesis by (simp add: spaced_Cons2)
  next
    case (Suc j)
    with "3.prems" have "j < length (y # ys)" by simp
    then have "str_join '' '' (chars (y # ys)) ! (2 * j) = (y # ys) ! j"
      by (rule "3.IH"(2))
    with Suc show ?thesis by (simp add: spaced_Cons2)
  qed
qed

lemma spaced_odd: "Suc i < length c \<Longrightarrow> str_join '' '' (chars c) ! Suc (2 * i) = CHR '' ''"
proof (induction c arbitrary: i rule: induct_list012)
  case 1
  then show ?case by simp
next
  case (2 x)
  then show ?case by simp
next
  case (3 x y ys)
  show ?case
  proof (cases i)
    case 0
    then show ?thesis by (simp add: spaced_Cons2)
  next
    case (Suc j)
    with "3.prems" have "Suc j < length (y # ys)" by simp
    then have "str_join '' '' (chars (y # ys)) ! Suc (2 * j) = CHR '' ''"
      by (rule "3.IH"(2))
    with Suc show ?thesis by (simp add: spaced_Cons2)
  qed
qed

section \<open>Running external commands\<close>

text \<open>
  Claim C9. When a command fails, the text \<open>run_command\<close> returns shows the command
  line with a space between every two neighbouring characters (the join runs over the
  characters of a string): the result has \<open>2 * length c - 1\<close> characters, the
  characters of the command at the even positions and spaces at the odd ones. It is
  followed by the captured standard error. The captured standard output of the failed
  command has no influence on the returned text.
\<close>

theorem run_command_failure_text:
  "returncode (shell W (cmds_run t) c) \<noteq> 0 \<Longrightarrow>
     fst (run_command W c t) =
       ''Error running command '' @ [CHR 0x27] @ str_join '' '' (chars c) @ [CHR 0x27]
         @ '': '' @ stderr (shell W (cmds_run t) c)
     \<and> length (str_join '' '' (chars c)) = 2 * length c - 1
     \<and> (\<forall>i. i < length c \<longrightarrow> str_join '' '' (chars c) ! (2 * i) = c ! i)
     \<and> (\<forall>i. Suc i < length c \<longrightarrow> str_join '' '' (chars c) ! Suc (2 * i) = CHR '' '')
     \<and> fst (run_command (W\<lparr>shell := \<lambda>n x. (shell W n x)\<lparr>stdout := out\<rparr>\<rparr>) c t)
         = fst (run_command W c t)"
  by (simp add: run_command_unfold spaced_length spaced_even spaced_odd)

theorem run_command_failure_text_witness:
  "returncode (shell requirements_world (cmds_run []) ''ab'') \<noteq> 0
   \<and> fst (run_command requirements_world ''ab'' []) =
       ''Error running command '' @ [CHR 0x27] @ ''a b'' @ [CHR 0x27] @ '': boom''
   \<and> fst (run_command (requirements_world\<lparr>shell := \<lambda>n x. (shell requirements_world n x)\<lparr>stdout := ''other''\<rparr>\<rparr>) ''ab'' [])
       = fst (run_command requirements_world ''ab'' [])"
proof -
  have h: "returncode (shell requirements_world (cmds_run []) ''ab'') \<noteq> 0"
    by (simp add: requirements_world_def finished_def)
  from run_command_failure_text [OF h, of "''other''"] h show ?thesis
    by (simp add: requirements_world_def finished_def chars_def cmds_run_def)
qed

section \<open>The entry point\<close>

text \<open>
  Claim C3. When the argument is not a directory, the program prints one error message,
  which contains the path, ends with exit status 1, and runs no command and prints no
  audit text: neither audit is started.
\<close>

theorem main_rejects_non_directory:
  "\<not> os_path_isdir W [] p \<Longrightarrow>
     main W p = (SystemExit 1,
                 [Print (''Error: Project path '' @ [CHR 0x27] @ p @ [CHR 0x27] @ '' not found.'')])
     \<and> exit_status (fst (main W p)) = 1
     \<and> commands (snd (main W p)) = []
     \<and> printed (snd (main W p)) =
         [''Error: Project path '' @ [CHR 0x27] @ p @ [CHR 0x27] @ '' not found.'']"
  by (simp add: main_def Let_def print_def commands_simps printed_simps)

theorem main_rejects_non_directory_witness:
  "\<not> os_path_isdir bare_world [] ''nope''
   \<and> main bare_world ''nope'' =
       (SystemExit 1, [Print (''Error: Project path '' @ [CHR 0x27] @ ''nope'' @ [CHR 0x27] @ '' not found.'')])
   \<and> exit_status (fst (main bare_world ''nope'')) = 1"
proof -
  have h: "\<not> os_path_isdir bare_world [] ''nope''"
    by (simp add: os_path_isdir_def bare_world_def)
  from main_rejects_non_directory [OF h] h show ?thesis by simp
qed

section \<open>The two audits\<close>

lemma dependency_events_unfold:
  "dependency_events W p t =
    (let install = executable W @ '' -m pip install pip-audit'';
         pp = os_path_join p ''pyproject.toml'';
         rp = os_path_join p ''requirements.txt'';
         scan_project = ''cd '' @ p @ '' && '' @ executable W @ '' -m pip-audit'';
         scan_file = executable W @ '' -m pip-audit -r '' @ rp;
         t2 = t @ [Print ''\<newline>--- Checking for vulnerable dependencies ---'', Exec install]
     in [Print ''\<newline>--- Checking for vulnerable dependencies ---'', Exec install] @
        (if fs W (Suc (cmds_run t)) pp \<noteq> None then
           [Print (''Auditing dependencies from '' @ pp @ ''...''), Exec scan_project,
            Print (fst (run_command W scan_project t2))]
         else if fs W (Suc (cmds_run t)) rp \<noteq> None then
           [Print (''Auditing '' @ rp @ ''...''), Exec scan_file,
            Print (fst (run_command W scan_file t2))]
         else [Print ''No pyproject.toml or requirements.txt found.'']))"
  by (simp add: dependency_events_def check_dependencies_unfold Let_def)

lemma quality_events_unfold:
  "quality_events W p t =
    (let install = executable W @ '' -m pip install flake8'';
         src = os_path_join p ''src'';
         t2 = t @ [Print ''\<newline>--- Checking code quality with flake8 ---'', Exec install];
         q = fst (run_command W (''flake8 '' @ src) t2)
     in [Print ''\<newline>--- Checking code quality with flake8 ---'', Exec install] @
        (if fs W (Suc (cmds_run t)) src \<noteq> None then
           [Exec (''flake8 '' @ src),
            Print (if \<exists>c\<in>set q. \<not> isspace c then q else ''flake8 found no issues.'')]
         else [Print ''No src/ directory found to analyze.'']))"
  by (simp add: quality_events_def check_code_quality_unfold Let_def)

lemma check_dependencies_appends:
  "check_dependencies W p t = t @ dependency_events W p t"
  by (simp add: dependency_events_unfold check_dependencies_unfold Let_def)

lemma check_code_quality_appends:
  "check_code_quality W p t = t @ quality_events W p t"
  by (simp add: quality_events_unfold check_code_quality_unfold Let_def)

lemma os_path_join_relative:
  "b \<noteq> [] \<Longrightarrow> hd b \<noteq> CHR ''/'' \<Longrightarrow> \<exists>pre. os_path_join a b = pre @ b"
  by (auto simp: os_path_join_def)

lemma scan_file_not_install:
  "exe @ '' -m pip-audit -r '' @ rp \<noteq> exe @ '' -m pip install pip-audit''"
  by simp

lemma scan_file_not_scan_project:
  "exe @ '' -m pip-audit -r '' @ os_path_join p ''requirements.txt''
     \<noteq> ''cd '' @ p @ '' && '' @ exe @ '' -m pip-audit''"
proof
  assume eq: "exe @ '' -m pip-audit -r '' @ os_path_join p ''requirements.txt''
                = ''cd '' @ p @ '' && '' @ exe @ '' -m pip-audit''"
  obtain pre where j: "os_path_join p ''requirements.txt'' = pre @ ''requirements.txt''"
    using os_path_join_relative [of "''requirements.txt''" p] by auto
  have "rev (exe @ '' -m pip-audit -r '' @ os_path_join p ''requirements.txt'') ! 1 = CHR ''x''"
    by (simp add: j)
  then have "rev (''cd '' @ p @ '' && '' @ exe @ '' -m pip-audit'') ! 1 = CHR ''x''"
    by (simp only: eq)
  then show False by simp
qed

lemma checker_not_install:
  "''flake8 '' @ os_path_join p ''src'' \<noteq> exe @ '' -m pip install flake8''"
proof
  assume eq: "''flake8 '' @ os_path_join p ''src'' = exe @ '' -m pip install flake8''"
  obtain pre where j: "os_path_join p ''src'' = pre @ ''src''"
    using os_path_join_relative [of "''src''" p] by auto
  have "last (''flake8 '' @ os_path_join p ''src'') = CHR ''c''"
    by (simp add: j)
  then have "last (exe @ '' -m pip install flake8'') = CHR ''c''"
    by (simp only: eq)
  then show False by simp
qed

subsection \<open>Dependency audit\<close>

text \<open>
  Claim C1. After the installation step the dependency audit looks for the two manifests
  in order. If \<^verbatim>\<open>pyproject.toml\<close> exists under the target directory, it runs the scanner
  after changing into that directory, and the requirements-file command is not among the
  commands it runs, whether or not \<^verbatim>\<open>requirements.txt\<close> exists too. Otherwise, if
  \<^verbatim>\<open>requirements.txt\<close> exists, it runs the scanner with \<^verbatim>\<open>-r\<close> and that file's path.
  Otherwise it prints that neither file was found, and the installation is the only
  command it runs.
\<close>

theorem check_dependencies_mode:
  "(let install = executable W @ '' -m pip install pip-audit'';
        pyproject_path = os_path_join p ''pyproject.toml'';
        requirements_path = os_path_join p ''requirements.txt'';
        scan_project = ''cd '' @ p @ '' && '' @ executable W @ '' -m pip-audit'';
        scan_file = executable W @ '' -m pip-audit -r '' @ requirements_path;
        t2 = t @ [Print ''\<newline>--- Checking for vulnerable dependencies ---'', Exec install]
    in (os_path_exists W t2 pyproject_path \<longrightarrow>
          check_dependencies W p t =
            t2 @ [Print (''Auditing dependencies from '' @ pyproject_path @ ''...''),
                  Exec scan_project, Print (fst (run_command W scan_project t2))]
          \<and> commands (dependency_events W p t) = [install, scan_project]
          \<and> scan_file \<notin> set (commands (dependency_events W p t)))
     \<and> (\<not> os_path_exists W t2 pyproject_path \<and> os_path_exists W t2 requirements_path \<longrightarrow>
          check_dependencies W p t =
            t2 @ [Print (''Auditing '' @ requirements_path @ ''...''),
                  Exec scan_file, Print (fst (run_command W scan_file t2))]
          \<and> commands (dependency_events W p t) = [install, scan_file])
     \<and> (\<not> os_path_exists W t2 pyproject_path \<and> \<not> os_path_exists W t2 requirements_path \<longrightarrow>
          check_dependencies W p t = t2 @ [Print ''No pyproject.toml or requirements.txt found.'']
          \<and> commands (dependency_events W p t) = [install]))"
  using scan_file_not_install [of "executable W" "os_path_join p ''requirements.txt''"]
    scan_file_not_scan_project [of "executable W" p]
  by (simp add: Let_def check_dependencies_unfold dependency_events_unfold os_path_exists_def
      cmds_run_simps commands_simps)

theorem check_dependencies_mode_witness:
  "os_path_exists full_world
     [Print ''\<newline>--- Checking for vulnerable dependencies ---'',
      Exec ''python3 -m pip install pip-audit''] ''proj/pyproject.toml''
   \<and> commands (dependency_events full_world ''proj'' []) =
        [''python3 -m pip install pip-audit'', ''cd proj && python3 -m pip-audit'']
   \<and> commands (dependency_events requirements_world ''proj'' []) =
        [''python3 -m pip install pip-audit'', ''python3 -m pip-audit -r proj/requirements.txt'']
   \<and> check_dependencies bare_world ''proj'' [] =
        [Print ''\<newline>--- Checking for vulnerable dependencies ---'',
         Exec ''python3 -m pip install pip-audit'',
         Print ''No pyproject.toml or requirements.txt found.'']"
  using check_dependencies_mode [of full_world "''proj''" "[]"]
    check_dependencies_mode [of requirements_world "''proj''" "[]"]
    check_dependencies_mode [of bare_world "''proj''" "[]"]
  by (simp add: Let_def os_path_exists_def os_path_join_def cmds_run_simps
      full_world_def requirements_world_def bare_world_def)

subsection \<open>Code-quality audit\<close>

text \<open>
  Claim C5, as amended. When \<^verbatim>\<open>src\<close> exists under the target directory and the checker
  exits with status 0: if the checker's output is empty or consists of whitespace only,
  the audit prints \<^verbatim>\<open>flake8 found no issues.\<close>; if it contains a character that is not
  whitespace, the audit prints that output. Nothing is said here about a checker that exits
  with another status.
\<close>

theorem check_code_quality_with_src:
  "(let install = executable W @ '' -m pip install flake8'';
        src_path = os_path_join p ''src'';
        checker = ''flake8 '' @ src_path;
        t2 = t @ [Print ''\<newline>--- Checking code quality with flake8 ---'', Exec install];
        output = stdout (shell W (cmds_run t2) checker)
    in os_path_exists W t2 src_path \<and> returncode (shell W (cmds_run t2) checker) = 0 \<longrightarrow>
         check_code_quality W p t =
           t2 @ [Exec checker,
                 Print (if \<forall>c\<in>set output. isspace c then ''flake8 found no issues.''
                        else output)])"
  by (simp add: Let_def check_code_quality_unfold os_path_exists_def cmds_run_simps
      run_command_unfold)

theorem check_code_quality_with_src_witness:
  "os_path_exists finding_world
     [Print ''\<newline>--- Checking code quality with flake8 ---'',
      Exec ''python3 -m pip install flake8''] ''proj/src''
   \<and> check_code_quality finding_world ''proj'' [] =
        [Print ''\<newline>--- Checking code quality with flake8 ---'',
         Exec ''python3 -m pip install flake8'', Exec ''flake8 proj/src'', Print ''E501'']
   \<and> check_code_quality full_world ''proj'' [] =
        [Print ''\<newline>--- Checking code quality with flake8 ---'',
         Exec ''python3 -m pip install flake8'', Exec ''flake8 proj/src'',
         Print ''flake8 found no issues.'']"
  using check_code_quality_with_src [of finding_world "''proj''" "[]"]
    check_code_quality_with_src [of full_world "''proj''" "[]"]
  by (simp add: Let_def os_path_exists_def os_path_join_def cmds_run_simps
      finding_world_def full_world_def finished_def run_command_unfold isspace_def)

text \<open>
  Claim C5 as stated says that a non-empty checker output is printed. The test in the
  script is on the stripped text: a checker that exits with status 0 and writes a single
  newline has a non-empty output, which is not printed; the no-issues message is.
\<close>

theorem check_code_quality_newline_counterexample:
  "os_path_exists newline_world
     [Print ''\<newline>--- Checking code quality with flake8 ---'',
      Exec ''python3 -m pip install flake8''] ''proj/src''
   \<and> returncode (shell newline_world 1 ''flake8 proj/src'') = 0
   \<and> stdout (shell newline_world 1 ''flake8 proj/src'') = ''\<newline>''
   \<and> stdout (shell newline_world 1 ''flake8 proj/src'') \<noteq> []
   \<and> Print (stdout (shell newline_world 1 ''flake8 proj/src''))
        \<notin> set (check_code_quality newline_world ''proj'' [])
   \<and> check_code_quality newline_world ''proj'' [] =
        [Print ''\<newline>--- Checking code quality with flake8 ---'',
         Exec ''python3 -m pip install flake8'', Exec ''flake8 proj/src'',
         Print ''flake8 found no issues.'']"
  by (simp add: check_code_quality_unfold Let_def os_path_exists_def os_path_join_def
      cmds_run_simps newline_world_def finished_def run_command_unfold isspace_def)

text \<open>
  Claim C6. When \<^verbatim>\<open>src\<close> does not exist under the target directory, the audit prints
  \<^verbatim>\<open>No src/ directory found to analyze.\<close> and the installation is the only command it
  runs: the checker command is not among its commands.
\<close>

theorem check_code_quality_without_src:
  "(let install = executable W @ '' -m pip install flake8'';
        src_path = os_path_join p ''src'';
        t2 = t @ [Print ''\<newline>--- Checking code quality with flake8 ---'', Exec install]
    in \<not> os_path_exists W t2 src_path \<longrightarrow>
         check_code_quality W p t = t2 @ [Print ''No src/ directory found to analyze.'']
         \<and> commands (quality_events W p t) = [install]
         \<and> ''flake8 '' @ src_path \<notin> set (commands (quality_events W p t)))"
  using checker_not_install [of p "executable W"]
  by (simp add: Let_def check_code_quality_unfold quality_events_unfold os_path_exists_def
      cmds_run_simps commands_simps)

theorem check_code_quality_without_src_witness:
  "\<not> os_path_exists bare_world
       [Print ''\<newline>--- Checking code quality with flake8 ---'',
        Exec ''python3 -m pip install flake8''] ''proj/src''
   \<and> check_code_quality bare_world ''proj'' [] =
        [Print ''\<newline>--- Checking code quality with flake8 ---'',
         Exec ''python3 -m pip install flake8'',
         Print ''No src/ directory found to analyze.'']
   \<and> ''flake8 proj/src'' \<notin> set (commands (quality_events bare_world ''proj'' []))"
  using check_code_quality_without_src [of bare_world "''proj''" "[]"]
  by (simp add: Let_def os_path_exists_def os_path_join_def cmds_run_simps bare_world_def)

section \<open>What the audits depend on\<close>













text \<open>
  Claim C10. The three probes of the audits ask whether a path exists, not what it is. A
  directory named \<^verbatim>\<open>pyproject.toml\<close> selects the scan in project context; without it, a
  directory named \<^verbatim>\<open>requirements.txt\<close> selects the scan of that path; an entry named
  \<^verbatim>\<open>src\<close> that is not a directory makes the audit run the checker on it. In general, two
  file systems in which the same paths exist give the same events, whatever the kinds of
  the entries.
\<close>

theorem probes_test_existence_only:
  "(let pyproject_path = os_path_join p ''pyproject.toml'';
        requirements_path = os_path_join p ''requirements.txt'';
        src_path = os_path_join p ''src'';
        n = Suc (cmds_run t)
    in (fs W n pyproject_path = Some Directory \<longrightarrow>
          commands (dependency_events W p t) =
            [executable W @ '' -m pip install pip-audit'',
             ''cd '' @ p @ '' && '' @ executable W @ '' -m pip-audit''])
     \<and> (fs W n pyproject_path = None \<and> fs W n requirements_path = Some Directory \<longrightarrow>
          commands (dependency_events W p t) =
            [executable W @ '' -m pip install pip-audit'',
             executable W @ '' -m pip-audit -r '' @ requirements_path])
     \<and> (fs W n src_path = Some RegularFile \<longrightarrow>
          commands (quality_events W p t) =
            [executable W @ '' -m pip install flake8'', ''flake8 '' @ src_path])
     \<and> ((\<forall>m path. (f m path = None) = (fs W m path = None)) \<longrightarrow>
          check_dependencies (W\<lparr>fs := f\<rparr>) p t = check_dependencies W p t
          \<and> check_code_quality (W\<lparr>fs := f\<rparr>) p t = check_code_quality W p t))"
  by (simp add: Let_def dependency_events_unfold quality_events_unfold commands_simps
      check_dependencies_unfold check_code_quality_unfold run_command_unfold)

theorem probes_test_existence_only_witness:
  "fs odd_world (Suc (cmds_run [])) ''proj/pyproject.toml'' = Some Directory
   \<and> commands (dependency_events odd_world ''proj'' []) =
        [''python3 -m pip install pip-audit'', ''cd proj && python3 -m pip-audit'']
   \<and> fs odd_requirements_world (Suc (cmds_run [])) ''proj/requirements.txt'' = Some Directory
   \<and> commands (dependency_events odd_requirements_world ''proj'' []) =
        [''python3 -m pip install pip-audit'', ''python3 -m pip-audit -r proj/requirements.txt'']
   \<and> fs odd_world (Suc (cmds_run [])) ''proj/src'' = Some RegularFile
   \<and> commands (quality_events odd_world ''proj'' []) =
        [''python3 -m pip install flake8'', ''flake8 proj/src'']
   \<and> check_dependencies (odd_world\<lparr>fs := fs plain_world\<rparr>) ''proj'' []
        = check_dependencies odd_world ''proj'' []
   \<and> check_code_quality (odd_world\<lparr>fs := fs plain_world\<rparr>) ''proj'' []
        = check_code_quality odd_world ''proj'' []"
proof -
  have same: "\<forall>m path. (fs plain_world m path = None) = (fs odd_world m path = None)"
    by (simp add: plain_world_def odd_world_def)
  have a: "fs odd_world (Suc (cmds_run [])) (os_path_join ''proj'' ''pyproject.toml'') = Some Directory"
    by (simp add: odd_world_def os_path_join_def)
  have b: "fs odd_requirements_world (Suc (cmds_run [])) (os_path_join ''proj'' ''pyproject.toml'') = None
           \<and> fs odd_requirements_world (Suc (cmds_run [])) (os_path_join ''proj'' ''requirements.txt'')
               = Some Directory"
    by (simp add: odd_requirements_world_def os_path_join_def)
  have c: "fs odd_world (Suc (cmds_run [])) (os_path_join ''proj'' ''src'') = Some RegularFile"
    by (simp add: odd_world_def os_path_join_def)
  have j: "os_path_join ''proj'' ''pyproject.toml'' = ''proj/pyproject.toml''"
    "os_path_join ''proj'' ''requirements.txt'' = ''proj/requirements.txt''"
    "os_path_join ''proj'' ''src'' = ''proj/src''"
    by (simp_all add: os_path_join_def)
  have e: "executable odd_world = ''python3''" "executable odd_requirements_world = ''python3''"
    by (simp_all add: odd_world_def odd_requirements_world_def)
  from probes_test_existence_only [where W = odd_world and p = "''proj''" and t = "[]"
      and f = "fs plain_world"]
    probes_test_existence_only [where W = odd_requirements_world and p = "''proj''"
      and t = "[]" and f = "fs odd_requirements_world"]
    same a b c
  show ?thesis
    by (simp add: Let_def j e)
qed

section \<open>Commands that do not end with an exit status\<close>

text \<open>
  While no command raises, the script with exceptions does what the script without them
  does; the first command that raises ends the audit, and the run, at that command.
\<close>

lemma truncate_fields:
  "executable (world.truncate W) = executable W"
  "fs (world.truncate W) = fs W"
  "shell (world.truncate W) = shell W"
  by (simp_all add: world.truncate_def)





lemma run_command_raising_unfold:
  "run_command_raising W c t =
     (case raised W (cmds_run t) c of
        Some e \<Rightarrow> Inl e
      | None \<Rightarrow> Inr (fst (run_command (world.truncate W) c t)),
      t @ [Exec c])"
  by (simp add: run_command_raising_def subprocess_run_raising_def run_command_unfold Let_def
      truncate_fields split: option.splits)





lemma check_dependencies_raising_cause:
  "check_dependencies_raising W p t = (Some e, u) \<Longrightarrow> \<exists>n c. raised W n c = Some e"
  by (auto simp add: check_dependencies_raising_def run_command_raising_unfold Let_def
      split: if_splits option.splits)

lemma check_code_quality_raising_cause:
  "check_code_quality_raising W p t = (Some e, u) \<Longrightarrow> \<exists>n c. raised W n c = Some e"
  by (auto simp add: check_code_quality_raising_def run_command_raising_unfold Let_def
      split: if_splits option.splits)

text \<open>
  Claim C2, as amended. For every external command for which \<^verbatim>\<open>subprocess.run\<close> yields an
  exit status, \<open>run_command\<close> returns the captured standard output when the status is 0,
  and otherwise catches the \<^verbatim>\<open>CalledProcessError\<close> and returns a formatted text that ends
  with the captured error text. Any other exception of \<^verbatim>\<open>subprocess.run\<close> propagates to
  the caller unchanged. At the top level the program ends in one of four ways: it returns
  (the argument was a directory); \<^verbatim>\<open>parse_args\<close> raises \<^verbatim>\<open>SystemExit\<close>; the directory
  check raises \<^verbatim>\<open>SystemExit\<close> with status 1; or an exception that \<^verbatim>\<open>subprocess.run\<close>
  raised for some command is uncaught.
\<close>

theorem run_command_raising_outcomes:
  "run_command_raising W c t =
     (case raised W (cmds_run t) c of
        Some e \<Rightarrow> Inl e
      | None \<Rightarrow>
          Inr (if returncode (shell W (cmds_run t) c) = 0 then stdout (shell W (cmds_run t) c)
               else ''Error running command '' @ [CHR 0x27] @ str_join '' '' (chars c)
                      @ [CHR 0x27] @ '': '' @ stderr (shell W (cmds_run t) c)),
      t @ [Exec c])
   \<and> (case fst (main_raising W args) of
        Ended Returned \<Rightarrow> (\<exists>p. args = Namespace p \<and> os_path_isdir (world.truncate W) [] p)
      | Ended (SystemExit n) \<Rightarrow>
          args = ParserExit n
          \<or> (n = 1 \<and> (\<exists>p. args = Namespace p \<and> \<not> os_path_isdir (world.truncate W) [] p))
      | Uncaught e \<Rightarrow> (\<exists>n c. raised W n c = Some e))"
proof
  show "run_command_raising W c t =
     (case raised W (cmds_run t) c of
        Some e \<Rightarrow> Inl e
      | None \<Rightarrow>
          Inr (if returncode (shell W (cmds_run t) c) = 0 then stdout (shell W (cmds_run t) c)
               else ''Error running command '' @ [CHR 0x27] @ str_join '' '' (chars c)
                      @ [CHR 0x27] @ '': '' @ stderr (shell W (cmds_run t) c)),
      t @ [Exec c])"
    by (simp add: run_command_raising_unfold run_command_unfold truncate_fields
        split: option.splits)
next
  show "case fst (main_raising W args) of
        Ended Returned \<Rightarrow> (\<exists>p. args = Namespace p \<and> os_path_isdir (world.truncate W) [] p)
      | Ended (SystemExit n) \<Rightarrow>
          args = ParserExit n
          \<or> (n = 1 \<and> (\<exists>p. args = Namespace p \<and> \<not> os_path_isdir (world.truncate W) [] p))
      | Uncaught e \<Rightarrow> (\<exists>n c. raised W n c = Some e)"
  proof (cases args)
    case (ParserExit n)
    then show ?thesis by (simp add: main_raising_def)
  next
    case (Namespace p)
    show ?thesis
    proof (cases "os_path_isdir (world.truncate W) [] p")
      case False
      with Namespace show ?thesis by (simp add: main_raising_def)
    next
      case True
      with Namespace show ?thesis
        by (auto simp add: main_raising_def Let_def split: prod.splits option.splits
            dest: check_dependencies_raising_cause check_code_quality_raising_cause)
    qed
  qed
qed

theorem run_command_raising_outcomes_witness:
  "run_command_raising calm_world ''pip'' [] =
     (Inr (''Error running command '' @ [CHR 0x27] @ ''p i p'' @ [CHR 0x27] @ '': boom''),
      [Exec ''pip''])
   \<and> run_command_raising calm_world ''flake8 proj/src'' [] = (Inl OSError, [Exec ''flake8 proj/src''])
   \<and> fst (main_raising calm_world (ParserExit 2)) = Ended (SystemExit 2)"
  using run_command_raising_outcomes [of calm_world "''pip''" "[]" "ParserExit 2"]
    run_command_raising_outcomes [of calm_world "''flake8 proj/src''" "[]" "ParserExit 2"]
  by (simp add: calm_world_def finished_def chars_def cmds_run_simps main_raising_def)

text \<open>
  Claim C2 as stated says that no exception from a command invocation propagates. A
  checker whose output cannot be decoded makes \<^verbatim>\<open>subprocess.run\<close> raise
  \<^verbatim>\<open>UnicodeDecodeError\<close>: \<open>run_command\<close> does not return, and for a directory the
  exception reaches the top level.
\<close>

theorem run_command_decode_counterexample:
  "fst (run_command_raising garbled_world ''flake8 proj/src'' []) = Inl UnicodeDecodeError
   \<and> os_path_isdir (world.truncate garbled_world) [] ''proj''
   \<and> fst (main_raising garbled_world (Namespace ''proj'')) = Uncaught UnicodeDecodeError"
  by (simp add: main_raising_def check_dependencies_raising_def check_code_quality_raising_def
      run_command_raising_unfold Let_def print_def os_path_exists_def os_path_isdir_def
      os_path_join_def cmds_run_simps truncate_fields garbled_world_def)

lemma main_events:
  "os_path_isdir W [] p \<Longrightarrow>
     snd (main W p) =
       [Print (''--- Starting Audit for: '' @ p @ '' ---'')]
       @ dependency_events W p [Print (''--- Starting Audit for: '' @ p @ '' ---'')]
       @ quality_events W p
           (check_dependencies W p [Print (''--- Starting Audit for: '' @ p @ '' ---'')])
       @ [Print ''\<newline>--- Audit Complete ---'']"
proof -
  assume dir: "os_path_isdir W [] p"
  let ?t1 = "[Print (''--- Starting Audit for: '' @ p @ '' ---'')]"
  let ?t2 = "check_dependencies W p ?t1"
  have "snd (main W p) = check_code_quality W p ?t2 @ [Print ''\<newline>--- Audit Complete ---'']"
    using dir by (simp add: main_def Let_def print_def)
  also have "check_code_quality W p ?t2 = ?t2 @ quality_events W p ?t2"
    by (rule check_code_quality_appends)
  also have "?t2 @ quality_events W p ?t2
               = (?t1 @ dependency_events W p ?t1) @ quality_events W p ?t2"
    using check_dependencies_appends [of W p ?t1] by (rule arg_cong)
  finally show ?thesis by (simp only: append_assoc)
qed





end
